theory Spec2Isabelle
  imports Complex_Main
begin

section \<open>HOGBEN: design-space search drivers and the Sample wrapper\<close>

text \<open>
  A shallow embedding of \<^verbatim>\<open>hogben/visualise.py\<close> (the search drivers
  \<^verbatim>\<open>angle_choice\<close>, \<^verbatim>\<open>contrast_choice_single\<close>,
  \<^verbatim>\<open>contrast_choice_double\<close>, \<^verbatim>\<open>underlayer_choice\<close>,
  \<^verbatim>\<open>scan_parameters\<close>) and of \<^verbatim>\<open>hogben/models/samples.py\<close>
  (the class \<^verbatim>\<open>Sample\<close>).

  Conventions of the embedding:
  \<^item> Python floats are modelled as \<^typ>\<open>real\<close>: rounding and NaN are outside the model.
  \<^item> Every \<^verbatim>\<open>assert\<close> and \<^verbatim>\<open>raise\<close> of the source, and every failure of
    an array operation the source applies to data it built itself (\<^verbatim>\<open>np.argmax\<close> of an
    empty list, indexing a 1-D array with two indices, \<^verbatim>\<open>np.geomspace\<close> through
    zero), is an \<open>Inl\<close> branch of the model.
  \<^item> The two-dimensional drivers hand their points to matplotlib's \<^verbatim>\<open>plot_trisurf\<close>
    before they return; it raises when the points cannot be triangulated, and that is a
    branch of the model too. The rest of the reporting (line plots, labels, printing of
    progress, \<^verbatim>\<open>save_plot\<close>) does not depend on the data and is left out.
  \<^item> The sample handed to a driver is an object of a class of
    \<^verbatim>\<open>hogben/models/base.py\<close>, a module that is not embedded here. The sample is
    therefore a parameter: a record of the capabilities it declares and of the
    information methods it offers.
\<close>

subsection \<open>Errors\<close>

datatype error = AssertionError | RuntimeError | ValueError | IndexError | AttributeError

subsection \<open>\<^verbatim>\<open>np.argmax\<close>\<close>

text \<open>
  \<^verbatim>\<open>np.argmax\<close> scans from the left and keeps the index of the first maximal entry; on
  an empty sequence it raises \<^verbatim>\<open>ValueError\<close>.
\<close>

fun argmax_scan :: "real list \<Rightarrow> nat \<Rightarrow> nat \<Rightarrow> real \<Rightarrow> nat" where
  "argmax_scan [] i best v = best"
| "argmax_scan (x # xs) i best v =
     (if v < x then argmax_scan xs (Suc i) i x else argmax_scan xs (Suc i) best v)"

definition argmax :: "real list \<Rightarrow> error + nat" where
  "argmax xs = (case xs of [] \<Rightarrow> Inl ValueError | x # rest \<Rightarrow> Inr (argmax_scan rest 1 0 x))"

subsection \<open>The sample as the drivers see it\<close>

text \<open>
  A measurement configuration is \<^verbatim>\<open>(angle, points, time)\<close>; a plan is a list of them.
  A Fisher object exposes its matrix and \<^verbatim>\<open>min_eigenval\<close>.
\<close>

type_synonym angle_time = "real \<times> int \<times> real"

record Fisher =
  fisher_information :: "real list list"
  min_eigenval :: real

record base_sample =
  VariableAngle :: bool
  VariableContrast :: bool
  VariableUnderlayer :: bool
  angle_info :: "angle_time list \<Rightarrow> real list \<Rightarrow> Fisher"
  contrast_info :: "angle_time list \<Rightarrow> real list \<Rightarrow> Fisher"
  underlayer_info :: "angle_time list \<Rightarrow> real list \<Rightarrow> (real \<times> real) list \<Rightarrow> Fisher"

text \<open>
  A driver's run: what it returns (or the exception it raises), the calls it made to the
  sample's information methods, in order, and the baseline plan as it stands at the end.
\<close>

datatype call =
    AngleInfo "angle_time list" "real list"
  | ContrastInfo "angle_time list" "real list"
  | UnderlayerInfo "angle_time list" "real list" "(real \<times> real) list"

record ('b, 'r) search_run =
  outcome :: "error + 'r"
  evaluated :: "call list"
  baseline :: 'b

subsection \<open>\<^verbatim>\<open>angle_choice\<close>\<close>

text \<open>
  The loop over \<^verbatim>\<open>angle_range\<close>. Its state is the baseline plan
  \<^verbatim>\<open>initial_angle_times\<close>, the list \<^verbatim>\<open>min_eigs\<close> and the calls made so far.
\<close>

fun angle_scan ::
  "base_sample \<Rightarrow> real list \<Rightarrow> int \<Rightarrow> real \<Rightarrow> real list \<Rightarrow>
   angle_time list \<times> real list \<times> call list \<Rightarrow> angle_time list \<times> real list \<times> call list" where
  "angle_scan sample contrasts points_new time_new [] st = st"
| "angle_scan sample contrasts points_new time_new (angle_new # rest)
     (initial_angle_times, min_eigs, calls) =
     (let new_angle_times = initial_angle_times @ [(angle_new, points_new, time_new)];
          fisher_new = angle_info sample new_angle_times contrasts
      in angle_scan sample contrasts points_new time_new rest
           (initial_angle_times, min_eigs @ [min_eigenval fisher_new],
            calls @ [AngleInfo new_angle_times contrasts]))"

definition angle_choice ::
  "base_sample \<Rightarrow> angle_time list \<Rightarrow> real list \<Rightarrow> int \<Rightarrow> real \<Rightarrow> real list option \<Rightarrow>
   (angle_time list, real) search_run" where
  "angle_choice sample initial_angle_times angle_range points_new time_new contrasts =
     (if \<not> VariableAngle sample
      then \<lparr>outcome = Inl AssertionError, evaluated = [], baseline = initial_angle_times\<rparr>
      else
        let contrasts = (case contrasts of None \<Rightarrow> [] | Some c \<Rightarrow> c);
            (initial_after, min_eigs, calls) =
               angle_scan sample contrasts points_new time_new angle_range
                 (initial_angle_times, [], [])
        in \<lparr>outcome = (case argmax min_eigs of
                          Inl e \<Rightarrow> Inl e
                        | Inr k \<Rightarrow> Inr (angle_range ! k)),
            evaluated = calls, baseline = initial_after\<rparr>)"

text \<open>The plan and the scalar of one candidate angle, as the specification words them.\<close>

definition angle_plan :: "angle_time list \<Rightarrow> int \<Rightarrow> real \<Rightarrow> real \<Rightarrow> angle_time list" where
  "angle_plan initial_angle_times points_new time_new a =
     initial_angle_times @ [(a, points_new, time_new)]"

definition angle_scalar ::
  "base_sample \<Rightarrow> angle_time list \<Rightarrow> int \<Rightarrow> real \<Rightarrow> real list \<Rightarrow> real \<Rightarrow> real" where
  "angle_scalar sample initial_angle_times points_new time_new contrasts a =
     min_eigenval (angle_info sample
       (angle_plan initial_angle_times points_new time_new a) contrasts)"

definition given_contrasts :: "real list option \<Rightarrow> real list" where
  "given_contrasts contrasts = (case contrasts of None \<Rightarrow> [] | Some c \<Rightarrow> c)"

subsection \<open>\<^verbatim>\<open>contrast_choice_single\<close>\<close>

fun contrast_scan ::
  "base_sample \<Rightarrow> angle_time list \<Rightarrow> real list \<Rightarrow>
   real list \<times> real list \<times> call list \<Rightarrow> real list \<times> real list \<times> call list" where
  "contrast_scan sample angle_times [] st = st"
| "contrast_scan sample angle_times (new_contrast # rest) (initial_contrasts, min_eigs, calls) =
     (let new_contrast = initial_contrasts @ [new_contrast];
          fisher_new = contrast_info sample angle_times new_contrast
      in contrast_scan sample angle_times rest
           (initial_contrasts, min_eigs @ [min_eigenval fisher_new],
            calls @ [ContrastInfo angle_times new_contrast]))"

definition contrast_choice_single ::
  "base_sample \<Rightarrow> real list \<Rightarrow> real list \<Rightarrow> angle_time list \<Rightarrow> (real list, real) search_run" where
  "contrast_choice_single sample contrast_range initial_contrasts angle_times =
     (if \<not> VariableContrast sample
      then \<lparr>outcome = Inl AssertionError, evaluated = [], baseline = initial_contrasts\<rparr>
      else
        let (initial_after, min_eigs, calls) =
               contrast_scan sample angle_times contrast_range (initial_contrasts, [], [])
        in \<lparr>outcome = (case argmax min_eigs of
                          Inl e \<Rightarrow> Inl e
                        | Inr k \<Rightarrow> Inr (contrast_range ! k)),
            evaluated = calls, baseline = initial_after\<rparr>)"

subsection \<open>\<^verbatim>\<open>contrast_choice_double\<close>\<close>

text \<open>
  \<^verbatim>\<open>itertools.combinations(contrast_range, 2)\<close>: the pairs of entries at positions
  \<open>i < j\<close>, in lexicographic order of the positions.
\<close>

fun combinations2 :: "'a list \<Rightarrow> ('a \<times> 'a) list" where
  "combinations2 [] = []"
| "combinations2 (x # xs) = map (Pair x) xs @ combinations2 xs"

text \<open>
  \<^verbatim>\<open>ax.plot_trisurf(x, y, z)\<close> builds the Delaunay triangulation of the points
  \<^verbatim>\<open>(x, y)\<close>. It raises \<^verbatim>\<open>ValueError\<close> for fewer than three points or fewer than
  three different points, and \<^verbatim>\<open>RuntimeError\<close> (from Qhull) when all the points lie on
  one line.
\<close>

definition on_a_line :: "real \<times> real \<Rightarrow> real \<times> real \<Rightarrow> real \<times> real \<Rightarrow> bool" where
  "on_a_line p q r \<longleftrightarrow>
     (fst q - fst p) * (snd r - snd p) = (snd q - snd p) * (fst r - fst p)"

definition plot_trisurf :: "real list \<Rightarrow> real list \<Rightarrow> real list \<Rightarrow> error + unit" where
  "plot_trisurf x y z =
     (let points = zip x y
      in if length points < 3 then Inl ValueError
         else if card (set points) < 3 then Inl ValueError
         else if list_all (\<lambda>p. list_all (\<lambda>q. list_all (\<lambda>r. on_a_line p q r) points) points) points
         then Inl RuntimeError
         else Inr ())"

text \<open>
  A run of a two-dimensional driver: the outcome, the calls made, and the points
  \<^verbatim>\<open>(x, y, min_eig)\<close> it hands to the surface plot.
\<close>

record 'r surface_run =
  result :: "error + 'r"
  calls_made :: "call list"
  surface :: "(real \<times> real \<times> real) list"



subsection \<open>\<^verbatim>\<open>underlayer_choice\<close>\<close>

fun sld_scan ::
  "base_sample \<Rightarrow> angle_time list \<Rightarrow> real list \<Rightarrow> real \<Rightarrow> real list \<Rightarrow>
   real list \<times> real list \<times> real list \<times> call list \<Rightarrow>
   real list \<times> real list \<times> real list \<times> call list" where
  "sld_scan sample angle_times contrasts thick [] st = st"
| "sld_scan sample angle_times contrasts thick (sld # rest) (x, y, min_eigs, calls) =
     (let fisher = underlayer_info sample angle_times contrasts [(thick, sld)]
      in sld_scan sample angle_times contrasts thick rest
           (x @ [thick], y @ [sld], min_eigs @ [min_eigenval fisher],
            calls @ [UnderlayerInfo angle_times contrasts [(thick, sld)]]))"

fun thick_scan ::
  "base_sample \<Rightarrow> angle_time list \<Rightarrow> real list \<Rightarrow> real list \<Rightarrow> real list \<Rightarrow>
   real list \<times> real list \<times> real list \<times> call list \<Rightarrow>
   real list \<times> real list \<times> real list \<times> call list" where
  "thick_scan sample angle_times contrasts sld_range [] st = st"
| "thick_scan sample angle_times contrasts sld_range (thick # rest) st =
     thick_scan sample angle_times contrasts sld_range rest
       (sld_scan sample angle_times contrasts thick sld_range st)"

definition underlayer_choice ::
  "base_sample \<Rightarrow> real list \<Rightarrow> real list \<Rightarrow> real list \<Rightarrow> angle_time list \<Rightarrow>
   (real \<times> real) surface_run" where
  "underlayer_choice sample thickness_range sld_range contrasts angle_times =
     (if \<not> VariableUnderlayer sample
      then \<lparr>result = Inl AssertionError, calls_made = [], surface = []\<rparr>
      else
        let (x, y, min_eigs, calls) =
               thick_scan sample angle_times contrasts sld_range thickness_range ([], [], [], [])
        in \<lparr>result = (case plot_trisurf x y min_eigs of
                          Inl e \<Rightarrow> Inl e
                        | Inr plotted \<Rightarrow>
                            (case argmax min_eigs of
                               Inl e \<Rightarrow> Inl e
                             | Inr maximum \<Rightarrow> Inr (x ! maximum, y ! maximum))),
            calls_made = calls,
            surface = zip x (zip y min_eigs)\<rparr>)"

text \<open>The scalar of one (thickness, SLD) combination, as the specification words it.\<close>

definition underlayer_scalar ::
  "base_sample \<Rightarrow> angle_time list \<Rightarrow> real list \<Rightarrow> real \<times> real \<Rightarrow> real" where
  "underlayer_scalar sample angle_times contrasts c =
     min_eigenval (underlayer_info sample angle_times contrasts [c])"


subsection \<open>A sample to run the drivers on\<close>

definition demo_sample :: base_sample where
  "demo_sample =
     \<lparr>VariableAngle = True, VariableContrast = True, VariableUnderlayer = True,
      angle_info = (\<lambda>plan cs.
         \<lparr>fisher_information = [], min_eigenval = (case last plan of (a, n, t) \<Rightarrow> a * (4 - a))\<rparr>),
      contrast_info = (\<lambda>plan cs.
         \<lparr>fisher_information = [], min_eigenval = last cs * (6 - last cs) + hd cs\<rparr>),
      underlayer_info = (\<lambda>plan cs us.
         \<lparr>fisher_information = [], min_eigenval = (case hd us of (t, s) \<Rightarrow> t - s * s)\<rparr>)\<rparr>"

definition fixed_sample :: base_sample where
  "fixed_sample = demo_sample\<lparr>VariableAngle := False, VariableContrast := False,
     VariableUnderlayer := False\<rparr>"

subsection \<open>Parameters and \<^verbatim>\<open>scan_parameters\<close>\<close>

text \<open>
  A \<^verbatim>\<open>refnx.analysis.Parameter\<close>: its value, its bounds and its vary flag. Parameters are
  shared mutable objects, so \<^verbatim>\<open>scan_parameters\<close> works on a store from addresses to
  parameters, and its argument \<^verbatim>\<open>params\<close> is a list of addresses (the same parameter
  may be listed twice).
\<close>

record Parameter =
  p_value :: real
  lb :: real
  ub :: real
  vary :: bool

type_synonym store = "nat \<Rightarrow> Parameter"

definition linspace :: "real \<Rightarrow> real \<Rightarrow> nat \<Rightarrow> real list" where
  "linspace start stop num =
     (if num = 1 then [start]
      else map (\<lambda>i. if i = num - 1 then stop
                     else start + real i * ((stop - start) / real (num - 1))) [0..<num])"

text \<open>\<^verbatim>\<open>np.max\<close> of an empty array raises \<^verbatim>\<open>ValueError\<close>.\<close>

definition np_max :: "real list \<Rightarrow> error + real" where
  "np_max xs = (case xs of [] \<Rightarrow> Inl ValueError | x # rest \<Rightarrow> Inr (fold max rest x))"

text \<open>
  \<^verbatim>\<open>Fisher.from_sample\<close> belongs to \<^verbatim>\<open>hogben/utils.py\<close>, a module that is not embedded
  here; it is a parameter of the model. It reads the sample through the store and hands
  back a Fisher object and the store as it leaves it.

  The inner loop \<^verbatim>\<open>for value in param_range\<close>: assign \<^verbatim>\<open>param.value\<close>, evaluate.
\<close>

fun value_scan ::
  "(store \<Rightarrow> angle_time list \<Rightarrow> Fisher \<times> store) \<Rightarrow> angle_time list \<Rightarrow> nat \<Rightarrow> real list \<Rightarrow>
   store \<times> real list \<Rightarrow> store \<times> real list" where
  "value_scan from_sample angle_times param [] st = st"
| "value_scan from_sample angle_times param (v # rest) (heap, eigenvals) =
     (let heap = heap(param := (heap param)\<lparr>p_value := v\<rparr>);
          (fisher, heap) = from_sample heap angle_times
      in value_scan from_sample angle_times param rest
           (heap, eigenvals @ [min_eigenval fisher]))"

text \<open>The outer loop \<^verbatim>\<open>for param in params\<close>: save the value, scan, restore the value.\<close>

fun param_scan ::
  "(store \<Rightarrow> angle_time list \<Rightarrow> Fisher \<times> store) \<Rightarrow> angle_time list \<Rightarrow> nat list \<Rightarrow>
   store \<times> real list list \<times> real list list \<Rightarrow> store \<times> real list list \<times> real list list" where
  "param_scan from_sample angle_times [] st = st"
| "param_scan from_sample angle_times (param # rest) (heap, param_values, eigenval_list) =
     (let old_value = p_value (heap param);
          param_range = linspace (lb (heap param)) (ub (heap param)) 100;
          (heap, eigenvals) = value_scan from_sample angle_times param param_range (heap, []);
          heap = heap(param := (heap param)\<lparr>p_value := old_value\<rparr>)
      in param_scan from_sample angle_times rest
           (heap, param_values @ [param_range], eigenval_list @ [eigenvals]))"

text \<open>
  \<^verbatim>\<open>scan_parameters\<close> returns \<^verbatim>\<open>None\<close>; the model returns that (or the exception) and
  the store it leaves behind.
\<close>

definition scan_parameters ::
  "('s \<Rightarrow> store \<Rightarrow> angle_time list \<Rightarrow> Fisher \<times> store) \<Rightarrow> 's \<Rightarrow> nat list \<Rightarrow> angle_time list \<Rightarrow>
   store \<Rightarrow> (error + unit) \<times> store" where
  "scan_parameters Fisher_from_sample sample params angle_times heap =
     (let (heap, param_values, eigenval_list) =
             param_scan (Fisher_from_sample sample) angle_times params (heap, [], [])
      in case np_max (concat eigenval_list) of
           Inl e \<Rightarrow> (Inl e, heap)
         | Inr ymax \<Rightarrow> (Inr (), heap))"

subsection \<open>Layers and structures of \<^verbatim>\<open>samples.py\<close>\<close>

text \<open>
  A refnx \<^verbatim>\<open>Slab\<close> with the current values of its parameters. A \<^verbatim>\<open>MagneticLayer\<close> is a
  \<^verbatim>\<open>Slab\<close> with further attributes; \<^verbatim>\<open>isinstance(layer, MagneticLayer)\<close> is
  \<open>magnetic layer \<noteq> None\<close>.
\<close>

record MagneticLayer =
  SL :: real
  density :: real
  mag :: real
  underlayer :: bool

record Slab =
  name :: string
  sld_real :: real
  sld_imag :: real
  thick :: real
  rough :: real
  magnetic :: "MagneticLayer option"

definition SLD_n :: "MagneticLayer \<Rightarrow> real" where
  "SLD_n m = density m * SL m"

definition SLD_m :: "MagneticLayer \<Rightarrow> real" where
  "SLD_m m = 1 / 10 * density m * mag m"

definition MagneticLayer_init ::
  "real \<Rightarrow> real \<Rightarrow> real \<Rightarrow> real \<Rightarrow> real \<Rightarrow> bool \<Rightarrow> string \<Rightarrow> Slab" where
  "MagneticLayer_init sl dens mg th rg ul nm =
     (let m = \<lparr>SL = sl, density = dens, mag = mg, underlayer = ul\<rparr>
      in \<lparr>name = nm, sld_real = SLD_n m, sld_imag = 0, thick = th, rough = rg,
          magnetic = Some m\<rparr>)"

text \<open>\<^verbatim>\<open>SLD(value, name)(thick, rough)\<close>: a plain slab named after its material.\<close>

definition spin_up :: "Slab \<Rightarrow> MagneticLayer \<Rightarrow> Slab" where
  "spin_up layer m =
     \<lparr>name = ''spin_up'', sld_real = SLD_n m + SLD_m m, sld_imag = 0,
      thick = thick layer, rough = rough layer, magnetic = None\<rparr>"

definition spin_down :: "Slab \<Rightarrow> MagneticLayer \<Rightarrow> Slab" where
  "spin_down layer m =
     \<lparr>name = ''spin_down'', sld_real = SLD_n m - SLD_m m, sld_imag = 0,
      thick = thick layer, rough = rough layer, magnetic = None\<rparr>"

text \<open>A Refl1D slab: its name, its material's \<^verbatim>\<open>rho\<close> and \<^verbatim>\<open>irho\<close>, thickness, interface.\<close>

record Refl1D_Slab =
  layer_name :: string
  rho :: real
  irho :: real
  thickness :: real
  interface :: real

text \<open>
  What \<^verbatim>\<open>Sample.structure\<close> can hold: a \<^verbatim>\<open>refnx.reflect.Structure\<close>, a
  \<^verbatim>\<open>refl1d.model.Stack\<close>, a bare refnx \<^verbatim>\<open>SLD\<close>, a bare \<^verbatim>\<open>refl1d.material.SLD\<close>
  (both arise in the conversions below before the first layer is joined), or any other
  object. Each carries its name.
\<close>

datatype "structure" =
    is_Structure: Structure string "Slab list"
  | is_Stack: Stack string "Refl1D_Slab list"
  | Scatterer string real real
  | Material string real real
  | Other string

fun structure_name :: "structure \<Rightarrow> string" where
  "structure_name (Structure nm comps) = nm"
| "structure_name (Stack nm layers) = nm"
| "structure_name (Scatterer nm re im) = nm"
| "structure_name (Material nm r i) = nm"
| "structure_name (Other nm) = nm"

fun set_name :: "string \<Rightarrow> structure \<Rightarrow> structure" where
  "set_name n (Structure nm comps) = Structure n comps"
| "set_name n (Stack nm layers) = Stack n layers"
| "set_name n (Scatterer nm re im) = Scatterer n re im"
| "set_name n (Material nm r i) = Material n r i"
| "set_name n (Other nm) = Other n"

subsection \<open>Collaborators of \<^verbatim>\<open>Sample\<close>\<close>

text \<open>
  The model objects handed to \<^verbatim>\<open>reflectivity\<close>: a \<^verbatim>\<open>refnx.reflect.ReflectModel\<close> or
  the experiment built by \<^verbatim>\<open>refl1d_experiment\<close>.
\<close>

datatype model =
    ReflectModel "Slab list" real real real
  | Experiment "Refl1D_Slab list" "real list" real real real

text \<open>
  Functions of refnx, Refl1D, bumps and of \<^verbatim>\<open>hogben/simulate.py\<close> and
  \<^verbatim>\<open>hogben/utils.py\<close>, none of which is embedded here. They are parameters of
  the model: \<^verbatim>\<open>Structure.sld_profile\<close>, \<^verbatim>\<open>Experiment.smooth_profile\<close>,
  \<^verbatim>\<open>reflectivity\<close>, \<^verbatim>\<open>simulate\<close> (the model and the rows \<^verbatim>\<open>(q, r, dr, counts)\<close> of
  the data), the constructor of \<^verbatim>\<open>Fisher\<close>, and the bounds that \<^verbatim>\<open>Parameter.pmp\<close>
  sets for a percentage and a value.
\<close>

record collaborators =
  structure_sld_profile :: "Slab list \<Rightarrow> real list \<times> real list"
  smooth_profile :: "model \<Rightarrow> real list \<times> real list"
  reflectivity :: "real list \<Rightarrow> model \<Rightarrow> real list"
  simulate :: "structure \<Rightarrow> angle_time list \<Rightarrow> model \<times> (real \<times> real \<times> real \<times> real) list"
  Fisher_new :: "real list list \<Rightarrow> Parameter list \<Rightarrow> real list list \<Rightarrow> model list \<Rightarrow> Fisher"
  pmp :: "real \<Rightarrow> real \<Rightarrow> real \<times> real"

text \<open>
  \<^verbatim>\<open>np.geomspace\<close> raises \<^verbatim>\<open>ValueError\<close> when an end point is zero or the number of
  points is negative.
\<close>

definition geomspace :: "real \<Rightarrow> real \<Rightarrow> int \<Rightarrow> error + real list" where
  "geomspace start stop num =
     (if start = 0 \<or> stop = 0 \<or> num < 0 then Inl ValueError
      else if num = 1 then Inr [start]
      else Inr (map (\<lambda>i. start * (stop / start) powr (real i / real (nat num - 1)))
                  [0..<nat num]))"

subsection \<open>The class \<^verbatim>\<open>Sample\<close>\<close>

text \<open>
  The attributes of a \<^verbatim>\<open>Sample\<close>. The class documents an attribute \<^verbatim>\<open>params\<close>;
  \<open>params self = None\<close> says that the object has no such attribute, and reading it raises
  \<^verbatim>\<open>AttributeError\<close>.
\<close>

record Sample =
  "structure" :: "structure"
  sample_name :: string
  scale :: real
  bkg :: real
  dq :: real
  params :: "Parameter list option"

text \<open>
  \<^verbatim>\<open>Sample.__init__\<close>. The assignment of \<^verbatim>\<open>self.params\<close> is commented out in the source,
  so the constructor leaves the attribute unset.
\<close>

definition Sample_init :: "structure \<Rightarrow> (string \<rightharpoonup> real) \<Rightarrow> Sample" where
  "Sample_init st settings =
     \<lparr>structure = st,
      sample_name = structure_name st,
      scale = (case settings ''scale'' of None \<Rightarrow> 1 | Some v \<Rightarrow> v),
      bkg = (case settings ''bkg'' of None \<Rightarrow> 5 / 1000000 | Some v \<Rightarrow> v),
      dq = (case settings ''dq'' of None \<Rightarrow> 2 / 100 | Some v \<Rightarrow> v),
      params = None\<rparr>"

text \<open>
  \<^verbatim>\<open>Sample.get_structures\<close>. The loop over \<^verbatim>\<open>enumerate(self.structure)\<close> replaces every
  magnetic layer in the two copies. \<^verbatim>\<open>copy()\<close> is the method of refnx's \<^verbatim>\<open>Structure\<close> (a
  \<^verbatim>\<open>UserList\<close>): it builds a new \<^verbatim>\<open>Structure\<close> from the components, with the default
  name. A Refl1D \<^verbatim>\<open>Stack\<close> and the other objects have no method \<^verbatim>\<open>copy\<close>: the first
  statement raises \<^verbatim>\<open>AttributeError\<close>.
\<close>

fun spin_layers :: "Slab list \<Rightarrow> nat \<Rightarrow> Slab list \<times> Slab list \<Rightarrow> Slab list \<times> Slab list" where
  "spin_layers [] i st = st"
| "spin_layers (layer # rest) i (spin_up_structure, spin_down_structure) =
     (case magnetic layer of
        None \<Rightarrow> spin_layers rest (Suc i) (spin_up_structure, spin_down_structure)
      | Some m \<Rightarrow>
          spin_layers rest (Suc i)
            (spin_up_structure[i := spin_up layer m], spin_down_structure[i := spin_down layer m]))"

definition get_structures :: "Sample \<Rightarrow> error + structure list" where
  "get_structures self =
     (case structure self of
        Structure nm comps \<Rightarrow>
          let structures = [];
              (spin_up_structure, spin_down_structure) = spin_layers comps 0 (comps, comps);
              structures =
                structures @ [Structure '''' spin_up_structure, Structure '''' spin_down_structure];
              structures = (if length structures = 0 then [structure self] else structures)
          in Inr structures
      | _ \<Rightarrow> Inl AttributeError)"

text \<open>
  \<^verbatim>\<open>Sample.__vary_structure\<close> (a static method): the parameters it returns, each with
  \<^verbatim>\<open>vary\<close> set and its new bounds. \<^verbatim>\<open>structure[1:-1]\<close> is \<open>butlast (tl comps)\<close>.
\<close>

fun vary_refnx :: "real \<Rightarrow> Slab list \<Rightarrow> Parameter list \<Rightarrow> Parameter list" where
  "vary_refnx bound_size [] ps = ps"
| "vary_refnx bound_size (component # rest) ps =
     (let sld = \<lparr>p_value = sld_real component,
                 lb = sld_real component * (1 - bound_size),
                 ub = sld_real component * (1 + bound_size), vary = True\<rparr>;
          th = \<lparr>p_value = thick component,
                 lb = thick component * (1 - bound_size),
                 ub = thick component * (1 + bound_size), vary = True\<rparr>
      in vary_refnx bound_size rest (ps @ [sld, th]))"

fun vary_refl1d ::
  "collaborators \<Rightarrow> real \<Rightarrow> Refl1D_Slab list \<Rightarrow> Parameter list \<Rightarrow> Parameter list" where
  "vary_refl1d collab bound_size [] ps = ps"
| "vary_refl1d collab bound_size (component # rest) ps =
     (let sld = \<lparr>p_value = rho component,
                 lb = fst (pmp collab (bound_size * 100) (rho component)),
                 ub = snd (pmp collab (bound_size * 100) (rho component)), vary = True\<rparr>;
          th = \<lparr>p_value = thickness component,
                 lb = fst (pmp collab (bound_size * 100) (thickness component)),
                 ub = snd (pmp collab (bound_size * 100) (thickness component)), vary = True\<rparr>
      in vary_refl1d collab bound_size rest (ps @ [sld, th]))"

definition vary_structure :: "collaborators \<Rightarrow> structure \<Rightarrow> real \<Rightarrow> error + Parameter list" where
  "vary_structure collab st bound_size =
     (case st of
        Structure nm comps \<Rightarrow> Inr (vary_refnx bound_size (butlast (tl comps)) [])
      | Stack nm layers \<Rightarrow> Inr (vary_refl1d collab bound_size (butlast (tl layers)) [])
      | _ \<Rightarrow> Inl RuntimeError)"

text \<open>
  \<^verbatim>\<open>Sample.angle_info\<close>: simulate, take the columns \<^verbatim>\<open>data[:, 0]\<close> and \<^verbatim>\<open>data[:, 3]\<close>,
  and build \<^verbatim>\<open>Fisher(qs, self.params, counts, models)\<close>.
\<close>

definition Sample_angle_info ::
  "collaborators \<Rightarrow> Sample \<Rightarrow> angle_time list \<Rightarrow> real list option \<Rightarrow> error + Fisher" where
  "Sample_angle_info collab self angle_times contrasts =
     (let (model, data) = simulate collab (structure self) angle_times;
          qs = [map (\<lambda>(q, r, dr, counts). q) data];
          counts = [map (\<lambda>(q, r, dr, counts). counts) data];
          models = [model]
      in case params self of
           None \<Rightarrow> Inl AttributeError
         | Some ps \<Rightarrow> Inr (Fisher_new collab qs ps counts models))"

text \<open>\<^verbatim>\<open>Sample._get_sld_profile\<close>.\<close>

definition get_sld_profile :: "collaborators \<Rightarrow> Sample \<Rightarrow> error + real list \<times> real list" where
  "get_sld_profile collab self =
     (case structure self of
        Structure nm comps \<Rightarrow> Inr (structure_sld_profile collab comps)
      | Stack nm layers \<Rightarrow>
          (case geomspace (5 / 1000) (3 / 10) 500 of
             Inl e \<Rightarrow> Inl e
           | Inr q \<Rightarrow> Inr (smooth_profile collab (Experiment layers q 1 (1 / 1000000) 2)))
      | _ \<Rightarrow> Inl RuntimeError)"

text \<open>
  \<^verbatim>\<open>Sample._get_reflectivity_profile\<close>. The Q points are built before the structure is
  looked at.
\<close>

definition get_reflectivity_profile ::
  "collaborators \<Rightarrow> Sample \<Rightarrow> real \<Rightarrow> real \<Rightarrow> int \<Rightarrow> real \<Rightarrow> real \<Rightarrow> real \<Rightarrow>
   error + real list \<times> real list" where
  "get_reflectivity_profile collab self q_min q_max points scl bg res =
     (case geomspace q_min q_max points of
        Inl e \<Rightarrow> Inl e
      | Inr q \<Rightarrow>
          (case structure self of
             Structure nm comps \<Rightarrow>
               Inr (q, reflectivity collab q (ReflectModel comps scl bg res))
           | Stack nm layers \<Rightarrow>
               Inr (q, reflectivity collab q (Experiment layers q scl bg res))
           | _ \<Rightarrow> Inl RuntimeError))"

text \<open>
  \<^verbatim>\<open>Sample.to_refl1d\<close>. Refl1D's \<^verbatim>\<open>layer | structure\<close> makes a new \<^verbatim>\<open>Stack\<close> of the
  layer followed by the layers of the stack, or by the bare material wrapped in a slab of
  thickness and interface zero.
\<close>

fun refl1d_join :: "Refl1D_Slab \<Rightarrow> structure \<Rightarrow> structure" where
  "refl1d_join layer (Stack nm layers) = Stack ''Stack'' (layer # layers)"
| "refl1d_join layer (Material nm r i) =
     Stack ''Stack'' [layer, \<lparr>layer_name = nm, rho = r, irho = i, thickness = 0, interface = 0\<rparr>]"
| "refl1d_join layer other = other"

fun to_refl1d_loop :: "Slab list \<Rightarrow> structure \<Rightarrow> structure" where
  "to_refl1d_loop [] st = st"
| "to_refl1d_loop (component # rest) st =
     (let layer = \<lparr>layer_name = name component, rho = sld_real component,
                   irho = sld_imag component, thickness = thick component,
                   interface = rough component\<rparr>
      in to_refl1d_loop rest (refl1d_join layer st))"

definition to_refl1d :: "Sample \<Rightarrow> error + Sample" where
  "to_refl1d self =
     (case structure self of
        Structure nm comps \<Rightarrow>
          Inr (self\<lparr>structure := set_name nm (to_refl1d_loop (tl comps) (Material ''Air'' 0 0))\<rparr>)
      | _ \<Rightarrow> Inl AssertionError)"

text \<open>
  \<^verbatim>\<open>Sample.to_refnx\<close>. refnx's \<^verbatim>\<open>structure |= slab\<close> appends the slab to a
  \<^verbatim>\<open>Structure\<close>; on a bare \<^verbatim>\<open>SLD\<close> it makes a new \<^verbatim>\<open>Structure\<close> of the \<^verbatim>\<open>SLD\<close> as a
  slab of thickness and roughness zero, followed by the slab.
\<close>

fun refnx_join :: "structure \<Rightarrow> Slab \<Rightarrow> structure" where
  "refnx_join (Structure nm comps) slab = Structure nm (comps @ [slab])"
| "refnx_join (Scatterer nm re im) slab =
     Structure '''' [\<lparr>name = nm, sld_real = re, sld_imag = im, thick = 0, rough = 0,
                    magnetic = None\<rparr>, slab]"
| "refnx_join other slab = other"

fun to_refnx_loop :: "Refl1D_Slab list \<Rightarrow> structure \<Rightarrow> structure" where
  "to_refnx_loop [] st = st"
| "to_refnx_loop (component # rest) st =
     (let slab = \<lparr>name = layer_name component, sld_real = rho component,
                  sld_imag = irho component, thick = thickness component,
                  rough = interface component, magnetic = None\<rparr>
      in to_refnx_loop rest (refnx_join st slab))"

definition to_refnx :: "Sample \<Rightarrow> error + Sample" where
  "to_refnx self =
     (case structure self of
        Stack nm layers \<Rightarrow>
          Inr (self\<lparr>structure := set_name nm (to_refnx_loop (tl (rev layers)) (Scatterer ''Air'' 0 0))\<rparr>)
      | _ \<Rightarrow> Inl AssertionError)"

subsection \<open>\<^verbatim>\<open>simple_sample\<close>\<close>

definition simple_sample :: Sample where
  "simple_sample =
     Sample_init
       (Structure ''simple_sample''
          [\<lparr>name = ''Air'', sld_real = 0, sld_imag = 0, thick = 0, rough = 0, magnetic = None\<rparr>,
           \<lparr>name = ''Layer 1'', sld_real = 4, sld_imag = 0, thick = 100, rough = 2, magnetic = None\<rparr>,
           \<lparr>name = ''Layer 2'', sld_real = 8, sld_imag = 0, thick = 150, rough = 2, magnetic = None\<rparr>,
           \<lparr>name = ''Substrate'', sld_real = 2047 / 1000, sld_imag = 0, thick = 0, rough = 2,
             magnetic = None\<rparr>])
       Map.empty"

subsection \<open>Notions used to state the properties of \<^verbatim>\<open>Sample\<close>\<close>

text \<open>
  What \<^verbatim>\<open>get_structures\<close> is to put at the place of a layer in the spin-up and in the
  spin-down copy.
\<close>

definition up_layer :: "Slab \<Rightarrow> Slab" where
  "up_layer c = (case magnetic c of None \<Rightarrow> c | Some m \<Rightarrow> spin_up c m)"

definition down_layer :: "Slab \<Rightarrow> Slab" where
  "down_layer c = (case magnetic c of None \<Rightarrow> c | Some m \<Rightarrow> spin_down c m)"

text \<open>
  A refnx slab read as a Refl1D slab and back, and the \<^verbatim>\<open>Air\<close> layers the two
  conversions start from.
\<close>

definition as_refl1d :: "Slab \<Rightarrow> Refl1D_Slab" where
  "as_refl1d c = \<lparr>layer_name = name c, rho = sld_real c, irho = sld_imag c,
     thickness = thick c, interface = rough c\<rparr>"

definition as_refnx :: "Refl1D_Slab \<Rightarrow> Slab" where
  "as_refnx l = \<lparr>name = layer_name l, sld_real = rho l, sld_imag = irho l,
     thick = thickness l, rough = interface l, magnetic = None\<rparr>"

definition air_layer :: Refl1D_Slab where
  "air_layer = \<lparr>layer_name = ''Air'', rho = 0, irho = 0, thickness = 0, interface = 0\<rparr>"

definition air_slab :: Slab where
  "air_slab = \<lparr>name = ''Air'', sld_real = 0, sld_imag = 0, thick = 0, rough = 0, magnetic = None\<rparr>"

subsection \<open>Objects to run \<^verbatim>\<open>Sample\<close> and \<^verbatim>\<open>scan_parameters\<close> on\<close>

definition demo_heap :: store where
  "demo_heap = (\<lambda>a. \<lparr>p_value = 4, lb = 3, ub = 5, vary = True\<rparr>)
     (1 := \<lparr>p_value = 100, lb = 80, ub = 120, vary = True\<rparr>)"

definition demo_from_sample :: "unit \<Rightarrow> store \<Rightarrow> angle_time list \<Rightarrow> Fisher \<times> store" where
  "demo_from_sample s h ats =
     (\<lparr>fisher_information = [], min_eigenval = p_value (h 0) * p_value (h 1)\<rparr>, h)"

definition demo_collab :: collaborators where
  "demo_collab =
     \<lparr>structure_sld_profile = (\<lambda>comps. ([], [])),
      smooth_profile = (\<lambda>m. ([], [])),
      reflectivity = (\<lambda>q m. map (\<lambda>x. 1) q),
      simulate = (\<lambda>st ats. (ReflectModel [] 1 0 0, [])),
      Fisher_new = (\<lambda>qs ps counts models. \<lparr>fisher_information = [], min_eigenval = 0\<rparr>),
      pmp = (\<lambda>pct v. (v * (1 - pct / 100), v * (1 + pct / 100)))\<rparr>"

definition magnetic_sample :: Sample where
  "magnetic_sample =
     Sample_init
       (Structure ''magnetic_sample''
          [\<lparr>name = ''Air'', sld_real = 0, sld_imag = 0, thick = 0, rough = 0, magnetic = None\<rparr>,
           MagneticLayer_init 1 5 6 10 6 True ''magnetic_layer'',
           \<lparr>name = ''Substrate'', sld_real = 2047 / 1000, sld_imag = 0, thick = 0, rough = 2,
             magnetic = None\<rparr>])
       Map.empty"

definition refl1d_sample :: Sample where
  "refl1d_sample =
     Sample_init
       (Stack ''refl1d_sample''
          [\<lparr>layer_name = ''Substrate'', rho = 2047 / 1000, irho = 0, thickness = 0, interface = 2\<rparr>,
           \<lparr>layer_name = ''Layer 1'', rho = 4, irho = 0, thickness = 100, interface = 2\<rparr>,
           \<lparr>layer_name = ''Air'', rho = 0, irho = 0, thickness = 0, interface = 0\<rparr>])
       Map.empty"

definition air_only_sample :: Sample where
  "air_only_sample =
     Sample_init
       (Structure ''air_only''
          [\<lparr>name = ''Air'', sld_real = 0, sld_imag = 0, thick = 0, rough = 0, magnetic = None\<rparr>])
       Map.empty"


section \<open>Properties\<close>

subsection \<open>The first maximum\<close>

lemma argmax_scan_invariant:
  assumes "best < length pre" and "v = pre ! best"
    and "\<forall>j<length pre. pre ! j \<le> v" and "\<forall>j<best. pre ! j < v"
  shows "argmax_scan xs (length pre) best v < length (pre @ xs) \<and>
         (\<forall>j<length (pre @ xs). (pre @ xs) ! j \<le> (pre @ xs) ! argmax_scan xs (length pre) best v) \<and>
         (\<forall>j<argmax_scan xs (length pre) best v.
            (pre @ xs) ! j < (pre @ xs) ! argmax_scan xs (length pre) best v)"
  using assms
proof (induction xs arbitrary: pre best v)
  case Nil
  then show ?case by simp
next
  case (Cons x xs)
  let ?pre = "pre @ [x]"
  have len: "length ?pre = Suc (length pre)" by simp
  show ?case
  proof (cases "v < x")
    case True
    have a1: "length pre < length ?pre" by simp
    have a2: "x = ?pre ! length pre" by simp
    have a3: "\<forall>j<length ?pre. ?pre ! j \<le> x"
      using Cons.prems True by (auto simp: nth_append less_Suc_eq)
    have a4: "\<forall>j<length pre. ?pre ! j < x"
      using Cons.prems True by (auto simp: nth_append)
    from Cons.IH [OF a1 a2 a3 a4] True show ?thesis by simp
  next
    case False
    have b1: "best < length ?pre" using Cons.prems by simp
    have b2: "v = ?pre ! best" using Cons.prems by (simp add: nth_append)
    have b3: "\<forall>j<length ?pre. ?pre ! j \<le> v"
      using Cons.prems False by (auto simp: nth_append less_Suc_eq)
    have b4: "\<forall>j<best. ?pre ! j < v"
      using Cons.prems by (auto simp: nth_append)
    from Cons.IH [OF b1 b2 b3 b4] False show ?thesis by simp
  qed
qed

lemma argmax_first_max:
  assumes "xs \<noteq> []"
  shows "\<exists>k<length xs. argmax xs = Inr k \<and> (\<forall>j<length xs. xs ! j \<le> xs ! k) \<and>
           (\<forall>j<k. xs ! j < xs ! k)"
proof -
  from assms obtain x rest where xs: "xs = x # rest" by (cases xs) auto
  have "argmax_scan rest (length [x]) 0 x < length ([x] @ rest) \<and>
         (\<forall>j<length ([x] @ rest). ([x] @ rest) ! j \<le> ([x] @ rest) ! argmax_scan rest (length [x]) 0 x) \<and>
         (\<forall>j<argmax_scan rest (length [x]) 0 x.
            ([x] @ rest) ! j < ([x] @ rest) ! argmax_scan rest (length [x]) 0 x)"
    by (rule argmax_scan_invariant) simp_all
  then show ?thesis
    unfolding xs argmax_def by simp
qed

lemma argmax_empty: "argmax [] = Inl ValueError"
  by (simp add: argmax_def)

subsection \<open>The loop of \<^verbatim>\<open>angle_choice\<close>\<close>

lemma angle_scan_eq:
  "angle_scan sample cs pn tn rng (init, eigs, calls) =
     (init,
      eigs @ map (angle_scalar sample init pn tn cs) rng,
      calls @ map (\<lambda>a. AngleInfo (angle_plan init pn tn a) cs) rng)"
  by (induction rng arbitrary: eigs calls) (simp_all add: angle_scalar_def angle_plan_def Let_def)

lemma angle_choice_unfold:
  assumes "VariableAngle sample"
  shows "angle_choice sample init rng pn tn contrasts =
     \<lparr>outcome = (case argmax (map (angle_scalar sample init pn tn (given_contrasts contrasts)) rng) of
                   Inl e \<Rightarrow> Inl e | Inr k \<Rightarrow> Inr (rng ! k)),
      evaluated = map (\<lambda>a. AngleInfo (angle_plan init pn tn a) (given_contrasts contrasts)) rng,
      baseline = init\<rparr>"
  using assms by (simp add: angle_choice_def angle_scan_eq given_contrasts_def Let_def)

text \<open>
  Claim C1. For a sample that can vary its angle and a non-empty \<^verbatim>\<open>angle_range\<close>,
  \<^verbatim>\<open>angle_choice\<close> evaluates the candidates one by one in scan order and returns
  \<^verbatim>\<open>angle_range[k]\<close> for an index \<open>k\<close> of the range whose scalar is at least that of
  every candidate and strictly above that of every earlier candidate: the first maximum.
\<close>

theorem angle_choice_first_maximum:
  assumes "VariableAngle sample" and "angle_range \<noteq> []"
  shows "\<exists>k<length angle_range.
           outcome (angle_choice sample initial angle_range pn tn contrasts) = Inr (angle_range ! k) \<and>
           (\<forall>j<length angle_range.
              angle_scalar sample initial pn tn (given_contrasts contrasts) (angle_range ! j)
              \<le> angle_scalar sample initial pn tn (given_contrasts contrasts) (angle_range ! k)) \<and>
           (\<forall>j<k.
              angle_scalar sample initial pn tn (given_contrasts contrasts) (angle_range ! j)
              < angle_scalar sample initial pn tn (given_contrasts contrasts) (angle_range ! k)) \<and>
           evaluated (angle_choice sample initial angle_range pn tn contrasts) =
             map (\<lambda>a. AngleInfo (angle_plan initial pn tn a) (given_contrasts contrasts)) angle_range"
proof -
  let ?f = "angle_scalar sample initial pn tn (given_contrasts contrasts)"
  have "map ?f angle_range \<noteq> []" using assms(2) by simp
  from argmax_first_max [OF this] obtain k where k: "k < length angle_range"
    and am: "argmax (map ?f angle_range) = Inr k"
    and mx: "\<forall>j<length angle_range. map ?f angle_range ! j \<le> map ?f angle_range ! k"
    and fst: "\<forall>j<k. map ?f angle_range ! j < map ?f angle_range ! k"
    by auto
  have "outcome (angle_choice sample initial angle_range pn tn contrasts) = Inr (angle_range ! k)"
    by (simp add: angle_choice_unfold [OF assms(1)] am)
  moreover have "\<forall>j<length angle_range. ?f (angle_range ! j) \<le> ?f (angle_range ! k)"
    using mx k by simp
  moreover have "\<forall>j<k. ?f (angle_range ! j) < ?f (angle_range ! k)"
    using fst k by simp
  moreover have "evaluated (angle_choice sample initial angle_range pn tn contrasts) =
      map (\<lambda>a. AngleInfo (angle_plan initial pn tn a) (given_contrasts contrasts)) angle_range"
    by (simp add: angle_choice_unfold [OF assms(1)])
  ultimately show ?thesis using k by blast
qed

theorem angle_choice_first_maximum_witness:
  "VariableAngle demo_sample \<and> [1, 3, 0 :: real] \<noteq> [] \<and>
   outcome (angle_choice demo_sample [(0.5, 10, 1)] [1, 3, 0] 20 5 None) = Inr 1 \<and>
   evaluated (angle_choice demo_sample [(0.5, 10, 1)] [1, 3, 0] 20 5 None) =
     [AngleInfo [(0.5, 10, 1), (1, 20, 5)] [], AngleInfo [(0.5, 10, 1), (3, 20, 5)] [],
      AngleInfo [(0.5, 10, 1), (0, 20, 5)] []]"
proof -
  let ?rng = "[1, 3, 0 :: real]"
  let ?f = "angle_scalar demo_sample [(0.5, 10, 1)] 20 5 (given_contrasts None)"
  let ?run = "angle_choice demo_sample [(0.5, 10, 1)] ?rng 20 5 None"
  have v: "VariableAngle demo_sample" by (simp add: demo_sample_def)
  have ne: "?rng \<noteq> []" by simp
  have sc: "angle_scalar demo_sample init pn tn cs a = a * (4 - a)" for init pn tn cs a
    by (simp add: angle_scalar_def angle_plan_def demo_sample_def)
  from angle_choice_first_maximum [OF v ne, of "[(0.5, 10, 1)]" 20 5 None]
  obtain k where k: "k < length ?rng"
    and out: "outcome ?run = Inr (?rng ! k)"
    and mx: "\<forall>j<length ?rng. ?f (?rng ! j) \<le> ?f (?rng ! k)"
    and fm: "\<forall>j<k. ?f (?rng ! j) < ?f (?rng ! k)"
    and ev: "evaluated ?run =
       map (\<lambda>a. AngleInfo (angle_plan [(0.5, 10, 1)] 20 5 a) (given_contrasts None)) ?rng"
    by blast
  from k have "k = 0 \<or> k = 1 \<or> k = 2" by auto
  then have "k = 0"
  proof (elim disjE)
    assume k1: "k = 1"
    have "?f (?rng ! 0) < ?f (?rng ! k)" using fm [rule_format, of 0] k1 by simp
    then show ?thesis by (simp add: sc k1)
  next
    assume k2: "k = 2"
    have "?f (?rng ! 0) \<le> ?f (?rng ! k)" using mx [rule_format, of 0] by simp
    then show ?thesis by (simp add: sc k2)
  qed simp
  with out have "outcome ?run = Inr 1" by simp
  with v ne ev show ?thesis by (simp add: angle_plan_def given_contrasts_def)
qed

subsection \<open>The loops of the other drivers\<close>

lemma contrast_scan_eq:
  "contrast_scan sample ats rng (init, eigs, calls) =
     (init,
      eigs @ map (\<lambda>c. min_eigenval (contrast_info sample ats (init @ [c]))) rng,
      calls @ map (\<lambda>c. ContrastInfo ats (init @ [c])) rng)"
  by (induction rng arbitrary: eigs calls) (simp_all add: Let_def)

lemma contrast_choice_single_unfold:
  assumes "VariableContrast sample"
  shows "contrast_choice_single sample rng init ats =
     \<lparr>outcome = (case argmax (map (\<lambda>c. min_eigenval (contrast_info sample ats (init @ [c]))) rng) of
                   Inl e \<Rightarrow> Inl e | Inr k \<Rightarrow> Inr (rng ! k)),
      evaluated = map (\<lambda>c. ContrastInfo ats (init @ [c])) rng,
      baseline = init\<rparr>"
  using assms by (simp add: contrast_choice_single_def contrast_scan_eq Let_def)


lemma sld_scan_eq:
  "sld_scan sample ats cs t slds (x, y, eigs, calls) =
     (x @ map fst (map (Pair t) slds),
      y @ map snd (map (Pair t) slds),
      eigs @ map (underlayer_scalar sample ats cs) (map (Pair t) slds),
      calls @ map (\<lambda>c. UnderlayerInfo ats cs [c]) (map (Pair t) slds))"
  by (induction slds arbitrary: x y eigs calls) (simp_all add: Let_def underlayer_scalar_def)

lemma thick_scan_eq:
  "thick_scan sample ats cs slds thicks (x, y, eigs, calls) =
     (x @ map fst (List.product thicks slds),
      y @ map snd (List.product thicks slds),
      eigs @ map (underlayer_scalar sample ats cs) (List.product thicks slds),
      calls @ map (\<lambda>c. UnderlayerInfo ats cs [c]) (List.product thicks slds))"
  by (induction thicks arbitrary: x y eigs calls) (simp_all add: sld_scan_eq)

lemma plot_trisurf_ok:
  assumes "p \<in> set (zip x y)" and "q \<in> set (zip x y)" and "r \<in> set (zip x y)"
    and "\<not> on_a_line p q r"
  shows "plot_trisurf x y z = Inr ()"
proof -
  have d: "p \<noteq> q" "p \<noteq> r" "q \<noteq> r"
    using assms(4) by (auto simp: on_a_line_def)
  then have "card {p, q, r} = 3" by simp
  moreover have "{p, q, r} \<subseteq> set (zip x y)" using assms(1-3) by simp
  ultimately have c: "3 \<le> card (set (zip x y))"
    using card_mono [of "set (zip x y)" "{p, q, r}"] by simp
  have l: "3 \<le> length (zip x y)"
    using c card_length [of "zip x y"] by linarith
  have n: "\<not> list_all (\<lambda>p. list_all (\<lambda>q. list_all (\<lambda>r. on_a_line p q r) (zip x y)) (zip x y))
               (zip x y)"
    using assms by (auto simp: list_all_iff)
  show ?thesis
    using c l n by (auto simp: plot_trisurf_def Let_def)
qed


lemma underlayer_choice_unfold:
  assumes "VariableUnderlayer sample"
    and "plot_trisurf (map fst (List.product thicks slds)) (map snd (List.product thicks slds))
           (map (underlayer_scalar sample ats cs) (List.product thicks slds)) = Inr ()"
  shows "underlayer_choice sample thicks slds cs ats =
     \<lparr>result = (case argmax (map (underlayer_scalar sample ats cs) (List.product thicks slds)) of
                  Inl e \<Rightarrow> Inl e
                | Inr k \<Rightarrow> Inr (map fst (List.product thicks slds) ! k,
                                map snd (List.product thicks slds) ! k)),
      calls_made = map (\<lambda>c. UnderlayerInfo ats cs [c]) (List.product thicks slds),
      surface = zip (map fst (List.product thicks slds))
                  (zip (map snd (List.product thicks slds))
                     (map (underlayer_scalar sample ats cs) (List.product thicks slds)))\<rparr>"
  using assms by (simp add: underlayer_choice_def thick_scan_eq Let_def)







lemma combinations2_empty:
  "length xs < 2 \<Longrightarrow> combinations2 xs = []"
  by (cases xs; cases "tl xs") auto





text \<open>
  Claim C2. A sample that lacks the capability a driver needs makes the driver fail at its
  first statement, the \<^verbatim>\<open>assert isinstance(sample, ...)\<close>: the run ends with
  \<^verbatim>\<open>AssertionError\<close> (the source's form of the unsupported-operation failure) and the
  list of calls to the sample's information method is empty, so no candidate was evaluated.
  This holds for \<^verbatim>\<open>angle_choice\<close>, \<^verbatim>\<open>contrast_choice_single\<close> and
  \<^verbatim>\<open>underlayer_choice\<close>.
\<close>

theorem missing_capability_fails_before_evaluation:
  "(\<not> VariableAngle sample \<longrightarrow>
      outcome (angle_choice sample initial_angle_times angle_range points_new time_new contrasts)
        = Inl AssertionError \<and>
      evaluated (angle_choice sample initial_angle_times angle_range points_new time_new contrasts)
        = []) \<and>
   (\<not> VariableContrast sample \<longrightarrow>
      outcome (contrast_choice_single sample contrast_range initial_contrasts angle_times)
        = Inl AssertionError \<and>
      evaluated (contrast_choice_single sample contrast_range initial_contrasts angle_times) = []) \<and>
   (\<not> VariableUnderlayer sample \<longrightarrow>
      result (underlayer_choice sample thickness_range sld_range cs angle_times)
        = Inl AssertionError \<and>
      calls_made (underlayer_choice sample thickness_range sld_range cs angle_times) = [])"
  by (simp add: angle_choice_def contrast_choice_single_def underlayer_choice_def)

theorem missing_capability_fails_before_evaluation_witness:
  "\<not> VariableAngle fixed_sample \<and> \<not> VariableContrast fixed_sample \<and>
   \<not> VariableUnderlayer fixed_sample \<and>
   outcome (angle_choice fixed_sample [(0.7, 100, 1000)] [1, 2] 50 10 None) = Inl AssertionError \<and>
   evaluated (angle_choice fixed_sample [(0.7, 100, 1000)] [1, 2] 50 10 None) = [] \<and>
   outcome (contrast_choice_single fixed_sample [1, 2] [6.36] [(0.7, 100, 1000)]) = Inl AssertionError \<and>
   evaluated (contrast_choice_single fixed_sample [1, 2] [6.36] [(0.7, 100, 1000)]) = [] \<and>
   result (underlayer_choice fixed_sample [10, 20] [1, 2] [6.36] [(0.7, 100, 1000)]) = Inl AssertionError \<and>
   calls_made (underlayer_choice fixed_sample [10, 20] [1, 2] [6.36] [(0.7, 100, 1000)]) = []"
  using missing_capability_fails_before_evaluation
    [of fixed_sample "[(0.7, 100, 1000)]" "[1, 2]" 50 10 None "[1, 2]" "[6.36]" "[(0.7, 100, 1000)]"
       "[10, 20]" "[1, 2]" "[6.36]"]
  by (simp add: fixed_sample_def demo_sample_def)




text \<open>
  Claim C4, amended. For a sample that can vary its underlayer and two ranges that each
  hold at least two different values, \<^verbatim>\<open>underlayer_choice\<close> calls
  \<^verbatim>\<open>underlayer_info\<close> once for every combination of the cartesian product of the
  thicknesses and the SLDs (thickness outer, SLD inner), each time with the given
  \<^verbatim>\<open>angle_times\<close> and \<^verbatim>\<open>contrasts\<close> and the one combination as the list of underlayers.
  It returns a combination of the product whose scalar is at least that of every
  combination of the product.
\<close>

theorem underlayer_choice_grid_maximum:
  assumes "VariableUnderlayer sample"
    and "t1 \<in> set thickness_range" and "t2 \<in> set thickness_range" and "t1 \<noteq> t2"
    and "s1 \<in> set sld_range" and "s2 \<in> set sld_range" and "s1 \<noteq> s2"
  shows "calls_made (underlayer_choice sample thickness_range sld_range contrasts angle_times) =
           map (\<lambda>c. UnderlayerInfo angle_times contrasts [c])
             (List.product thickness_range sld_range) \<and>
         (\<exists>c \<in> set (List.product thickness_range sld_range).
            result (underlayer_choice sample thickness_range sld_range contrasts angle_times) = Inr c \<and>
            (\<forall>d \<in> set (List.product thickness_range sld_range).
               underlayer_scalar sample angle_times contrasts d
               \<le> underlayer_scalar sample angle_times contrasts c))"
proof -
  let ?P = "List.product thickness_range sld_range"
  let ?f = "underlayer_scalar sample angle_times contrasts"
  let ?run = "underlayer_choice sample thickness_range sld_range contrasts angle_times"
  have pts: "(t1, s1) \<in> set (zip (map fst ?P) (map snd ?P))"
    "(t1, s2) \<in> set (zip (map fst ?P) (map snd ?P))"
    "(t2, s1) \<in> set (zip (map fst ?P) (map snd ?P))"
    using assms(2,3,5,6) by (simp_all add: zip_map_fst_snd)
  have nl: "\<not> on_a_line (t1, s1) (t1, s2) (t2, s1)"
    using assms(4,7) by (simp add: on_a_line_def)
  have plot: "plot_trisurf (map fst ?P) (map snd ?P) (map ?f ?P) = Inr ()"
    by (rule plot_trisurf_ok [OF pts nl])
  note unf = underlayer_choice_unfold [OF assms(1) plot]
  have ne: "?P \<noteq> []" using pts(1) by auto
  then have "map ?f ?P \<noteq> []" by simp
  from argmax_first_max [OF this] obtain k where k: "k < length ?P"
    and am: "argmax (map ?f ?P) = Inr k"
    and mx: "\<forall>j<length ?P. map ?f ?P ! j \<le> map ?f ?P ! k"
    by auto
  have r: "result ?run = Inr (?P ! k)"
    using k by (simp add: unf am)
  have "\<forall>d \<in> set ?P. ?f d \<le> ?f (?P ! k)"
  proof
    fix d assume "d \<in> set ?P"
    then obtain j where "j < length ?P" and "d = ?P ! j"
      unfolding in_set_conv_nth by blast
    with mx k show "?f d \<le> ?f (?P ! k)" by simp
  qed
  moreover have "?P ! k \<in> set ?P" using k by (rule nth_mem)
  ultimately have "\<exists>c \<in> set ?P. result ?run = Inr c \<and> (\<forall>d \<in> set ?P. ?f d \<le> ?f c)"
    using r by (intro bexI [of _ "?P ! k"] conjI)
  moreover have "calls_made ?run = map (\<lambda>c. UnderlayerInfo angle_times contrasts [c]) ?P"
    by (simp add: unf)
  ultimately show ?thesis by (intro conjI)
qed

theorem underlayer_choice_grid_maximum_witness:
  "VariableUnderlayer demo_sample \<and>
   (1 :: real) \<in> set [1, 2] \<and> (2 :: real) \<in> set [1, 2] \<and> (1 :: real) \<noteq> 2 \<and>
   (0 :: real) \<in> set [0, 1] \<and> (1 :: real) \<in> set [0, 1] \<and> (0 :: real) \<noteq> 1 \<and>
   calls_made (underlayer_choice demo_sample [1, 2] [0, 1] [6.36] [(0.7, 100, 1000)]) =
     [UnderlayerInfo [(0.7, 100, 1000)] [6.36] [(1, 0)], UnderlayerInfo [(0.7, 100, 1000)] [6.36] [(1, 1)],
      UnderlayerInfo [(0.7, 100, 1000)] [6.36] [(2, 0)], UnderlayerInfo [(0.7, 100, 1000)] [6.36] [(2, 1)]] \<and>
   result (underlayer_choice demo_sample [1, 2] [0, 1] [6.36] [(0.7, 100, 1000)]) = Inr (2, 0)"
proof -
  let ?run = "underlayer_choice demo_sample [1, 2] [0, 1] [6.36] [(0.7, 100, 1000)]"
  let ?f = "underlayer_scalar demo_sample [(0.7, 100, 1000)] [6.36]"
  have v: "VariableUnderlayer demo_sample" by (simp add: demo_sample_def)
  have h: "(1 :: real) \<in> set [1, 2]" "(2 :: real) \<in> set [1, 2]" "(1 :: real) \<noteq> 2"
    "(0 :: real) \<in> set [0, 1]" "(1 :: real) \<in> set [0, 1]" "(0 :: real) \<noteq> 1"
    by simp_all
  have sc: "underlayer_scalar demo_sample ats cs (t, s) = t - s * s" for ats cs t s
    by (simp add: underlayer_scalar_def demo_sample_def)
  have P: "List.product [1, 2 :: real] [0, 1 :: real] = [(1, 0), (1, 1), (2, 0), (2, 1)]"
    by simp
  from underlayer_choice_grid_maximum [OF v h, of "[6.36]" "[(0.7, 100, 1000)]"]
  obtain c where calls: "calls_made ?run =
        map (\<lambda>c. UnderlayerInfo [(0.7, 100, 1000)] [6.36] [c]) (List.product [1, 2] [0, 1])"
    and c: "c \<in> set (List.product [1, 2 :: real] [0, 1 :: real])"
    and r: "result ?run = Inr c"
    and mx: "\<forall>d \<in> set (List.product [1, 2 :: real] [0, 1 :: real]). ?f d \<le> ?f c"
    by auto
  have "?f (2, 0) \<le> ?f c" using mx by (simp only: P) simp
  with c have "c = (2, 0)" unfolding P by (auto simp: sc)
  with r calls v show ?thesis by (simp only: P) simp
qed

text \<open>
  Claim C4 as stated fails for non-empty ranges of which one holds a single value: all
  points of the grid then lie on one line (or are fewer than three), \<^verbatim>\<open>plot_trisurf\<close>
  raises before the driver returns, and no combination is returned. A value repeated in
  a range does not help.
\<close>

theorem underlayer_choice_flat_grid_counterexample:
  "VariableUnderlayer demo_sample \<and>
   result (underlayer_choice demo_sample [1] [0, 1, 2] [6.36] [(0.7, 100, 1000)]) = Inl RuntimeError \<and>
   result (underlayer_choice demo_sample [0, 1, 2] [1] [6.36] [(0.7, 100, 1000)]) = Inl RuntimeError \<and>
   result (underlayer_choice demo_sample [1] [0] [6.36] [(0.7, 100, 1000)]) = Inl ValueError \<and>
   result (underlayer_choice demo_sample [1, 1] [0, 1] [6.36] [(0.7, 100, 1000)]) = Inl ValueError"
  by (simp add: underlayer_choice_def demo_sample_def plot_trisurf_def on_a_line_def Let_def
      card_insert_if)

text \<open>
  Claim C7. In \<^verbatim>\<open>angle_choice\<close> the plan evaluated for a candidate angle is
  \<^verbatim>\<open>initial_angle_times + [(angle_new, points_new, time_new)]\<close>, and in
  \<^verbatim>\<open>contrast_choice_single\<close> the contrasts evaluated for a candidate are
  \<^verbatim>\<open>initial_contrasts + [new_contrast]\<close>: the baseline with the one candidate appended
  last. The baseline itself is the same after the run as before it.
\<close>

theorem one_dimensional_scans_append_to_baseline:
  "(VariableAngle sample \<longrightarrow>
      evaluated (angle_choice sample initial_angle_times angle_range points_new time_new contrasts) =
        map (\<lambda>angle_new. AngleInfo (initial_angle_times @ [(angle_new, points_new, time_new)])
               (given_contrasts contrasts)) angle_range) \<and>
   baseline (angle_choice sample initial_angle_times angle_range points_new time_new contrasts) =
     initial_angle_times \<and>
   (VariableContrast sample \<longrightarrow>
      evaluated (contrast_choice_single sample contrast_range initial_contrasts angle_times) =
        map (\<lambda>new_contrast. ContrastInfo angle_times (initial_contrasts @ [new_contrast]))
          contrast_range) \<and>
   baseline (contrast_choice_single sample contrast_range initial_contrasts angle_times) =
     initial_contrasts"
proof -
  have a: "baseline (angle_choice sample initial_angle_times angle_range points_new time_new contrasts) =
     initial_angle_times"
    by (cases "VariableAngle sample") (simp_all add: angle_choice_unfold, simp add: angle_choice_def)
  have b: "baseline (contrast_choice_single sample contrast_range initial_contrasts angle_times) =
     initial_contrasts"
    by (cases "VariableContrast sample")
      (simp_all add: contrast_choice_single_unfold, simp add: contrast_choice_single_def)
  show ?thesis
    using a b by (simp add: angle_choice_unfold contrast_choice_single_unfold angle_plan_def)
qed

theorem one_dimensional_scans_append_to_baseline_witness:
  "VariableAngle demo_sample \<and> VariableContrast demo_sample \<and>
   evaluated (angle_choice demo_sample [(0.7, 100, 1000)] [1, 2] 50 10 None) =
     [AngleInfo [(0.7, 100, 1000), (1, 50, 10)] [], AngleInfo [(0.7, 100, 1000), (2, 50, 10)] []] \<and>
   baseline (angle_choice demo_sample [(0.7, 100, 1000)] [1, 2] 50 10 None) = [(0.7, 100, 1000)] \<and>
   evaluated (contrast_choice_single demo_sample [1, 2] [6.36] [(0.7, 100, 1000)]) =
     [ContrastInfo [(0.7, 100, 1000)] [6.36, 1], ContrastInfo [(0.7, 100, 1000)] [6.36, 2]] \<and>
   baseline (contrast_choice_single demo_sample [1, 2] [6.36] [(0.7, 100, 1000)]) = [6.36]"
  using one_dimensional_scans_append_to_baseline
    [of demo_sample "[(0.7, 100, 1000)]" "[1, 2]" 50 10 None "[1, 2]" "[6.36]" "[(0.7, 100, 1000)]"]
  by (simp add: demo_sample_def given_contrasts_def)

subsection \<open>\<^verbatim>\<open>scan_parameters\<close> restores what it perturbs\<close>

lemma restore_same: "h(p := (h p)\<lparr>p_value := p_value (h p)\<rparr>) = h"
  by (rule ext) simp

lemma value_scan_heap:
  assumes "\<forall>h. snd (fs h ats) = h"
  shows "fst (value_scan fs ats p vs (h, e)) =
           h(p := (h p)\<lparr>p_value := (if vs = [] then p_value (h p) else last vs)\<rparr>)"
proof (induction vs arbitrary: h e)
  case Nil
  show ?case by (simp add: restore_same)
next
  case (Cons v vs)
  let ?h1 = "h(p := (h p)\<lparr>p_value := v\<rparr>)"
  have step: "value_scan fs ats p (v # vs) (h, e) =
      value_scan fs ats p vs (?h1, e @ [min_eigenval (fst (fs ?h1 ats))])"
    using assms [rule_format, of ?h1] by (simp add: Let_def split_beta)
  show ?case
    unfolding step Cons.IH by (rule ext) simp
qed

lemma param_scan_heap:
  assumes "\<forall>h. snd (fs h ats) = h"
  shows "fst (param_scan fs ats ps (h, pv, el)) = h"
proof (induction ps arbitrary: pv el)
  case Nil
  show ?case by simp
next
  case (Cons p ps)
  obtain h1 ev where vs: "value_scan fs ats p (linspace (lb (h p)) (ub (h p)) 100) (h, []) = (h1, ev)"
    by (cases "value_scan fs ats p (linspace (lb (h p)) (ub (h p)) 100) (h, [])")
  from value_scan_heap [of fs ats, OF assms, of p "linspace (lb (h p)) (ub (h p)) 100" h "[]"] vs
  have h1: "h1 = h(p := (h p)\<lparr>p_value :=
      (if linspace (lb (h p)) (ub (h p)) 100 = [] then p_value (h p)
       else last (linspace (lb (h p)) (ub (h p)) 100))\<rparr>)"
    by simp
  have restored: "h1(p := (h1 p)\<lparr>p_value := p_value (h p)\<rparr>) = h"
    unfolding h1 by (rule ext) simp
  show ?case
    by (simp add: Let_def vs restored Cons.IH)
qed

lemma value_scan_length:
  "length (snd (value_scan fs ats p vs (h, e))) = length e + length vs"
  by (induction vs arbitrary: h e) (simp_all add: Let_def split_beta)

lemma linspace_length: "length (linspace a b 100) = 100"
  by (simp add: linspace_def)

lemma param_scan_nonempty:
  "ps \<noteq> [] \<or> concat el \<noteq> [] \<Longrightarrow> concat (snd (snd (param_scan fs ats ps (h, pv, el)))) \<noteq> []"
proof (induction ps arbitrary: h pv el)
  case Nil
  then show ?case by simp
next
  case (Cons p ps)
  obtain h1 ev where vs: "value_scan fs ats p (linspace (lb (h p)) (ub (h p)) 100) (h, []) = (h1, ev)"
    by (cases "value_scan fs ats p (linspace (lb (h p)) (ub (h p)) 100) (h, [])")
  have "length ev = 100"
    using value_scan_length [of fs ats p "linspace (lb (h p)) (ub (h p)) 100" h "[]"] vs
    by (simp add: linspace_length)
  then have "ev \<noteq> []" by auto
  then have ne: "ps \<noteq> [] \<or> concat (el @ [ev]) \<noteq> []" by simp
  have step: "param_scan fs ats (p # ps) (h, pv, el) =
      param_scan fs ats ps (h1(p := (h1 p)\<lparr>p_value := p_value (h p)\<rparr>),
        pv @ [linspace (lb (h p)) (ub (h p)) 100], el @ [ev])"
    by (simp add: Let_def vs)
  show ?case unfolding step by (rule Cons.IH [OF ne])
qed


text \<open>
  Claim C5. \<^verbatim>\<open>scan_parameters\<close> assigns a hundred values to \<^verbatim>\<open>param.value\<close> for
  every parameter of the list and assigns the saved \<^verbatim>\<open>old_value\<close> back after the scan
  of that parameter. Provided \<^verbatim>\<open>Fisher.from_sample\<close> leaves the store as it finds it,
  every parameter of the list has the value it had before the call, the store as a whole
  is the one before the call, and for a non-empty list the function does return.
\<close>

theorem scan_parameters_restores_values:
  assumes "\<forall>h. snd (Fisher_from_sample sample h angle_times) = h"
  shows "(\<forall>param \<in> set ps.
            p_value (snd (scan_parameters Fisher_from_sample sample ps angle_times heap) param) =
            p_value (heap param)) \<and>
         snd (scan_parameters Fisher_from_sample sample ps angle_times heap) = heap \<and>
         (ps \<noteq> [] \<longrightarrow>
            fst (scan_parameters Fisher_from_sample sample ps angle_times heap) = Inr ())"
proof -
  obtain h1 pv el where ps:
    "param_scan (Fisher_from_sample sample) angle_times ps (heap, [], []) = (h1, pv, el)"
    by (cases "param_scan (Fisher_from_sample sample) angle_times ps (heap, [], [])")
  from param_scan_heap [of "Fisher_from_sample sample" angle_times, OF assms, of ps heap "[]" "[]"] ps have h1: "h1 = heap" by simp
  have s: "snd (scan_parameters Fisher_from_sample sample ps angle_times heap) = heap"
    by (simp add: scan_parameters_def ps h1 split: sum.splits)
  have r: "fst (scan_parameters Fisher_from_sample sample ps angle_times heap) = Inr ()"
    if "ps \<noteq> []"
  proof -
    from param_scan_nonempty [of ps "[]" "Fisher_from_sample sample" angle_times heap "[]"] that ps
    have "concat el \<noteq> []" by simp
    then obtain x rest where "concat el = x # rest" by (cases "concat el") auto
    then show ?thesis by (simp add: scan_parameters_def ps np_max_def)
  qed
  show ?thesis using s r by simp
qed

theorem scan_parameters_restores_values_witness:
  "p_value (snd (scan_parameters demo_from_sample () [0, 1, 0] [(0.7, 100, 1000)] demo_heap) 0) = 4 \<and>
   p_value (snd (scan_parameters demo_from_sample () [0, 1, 0] [(0.7, 100, 1000)] demo_heap) 1) = 100 \<and>
   fst (scan_parameters demo_from_sample () [0, 1, 0] [(0.7, 100, 1000)] demo_heap) = Inr ()"
proof -
  have pres: "\<forall>h. snd (demo_from_sample () h [(0.7, 100, 1000)]) = h"
    by (simp add: demo_from_sample_def)
  from scan_parameters_restores_values [of demo_from_sample "()" "[(0.7, 100, 1000)]", OF pres, of "[0, 1, 0]" demo_heap]
  show ?thesis by (simp add: demo_heap_def)
qed

subsection \<open>Structures that are neither refnx nor Refl1D\<close>

text \<open>
  Claim C6, amended. For an object that is neither a \<^verbatim>\<open>refnx.reflect.Structure\<close> nor a
  \<^verbatim>\<open>refl1d.model.Stack\<close>, \<^verbatim>\<open>__vary_structure\<close> and \<^verbatim>\<open>_get_sld_profile\<close> raise
  \<^verbatim>\<open>RuntimeError('invalid structure given')\<close>, the source's form of the configuration
  error, and \<^verbatim>\<open>_get_reflectivity_profile\<close> raises it whenever its Q range is one that
  \<^verbatim>\<open>np.geomspace\<close> accepts (end points not zero, a number of points that is not
  negative). \<^verbatim>\<open>_get_reflectivity_profile\<close> fails in every case.
\<close>

theorem invalid_structure_raises:
  assumes "\<not> is_Structure st" and "\<not> is_Stack st" and "structure self = st"
  shows "vary_structure collab st bound_size = Inl RuntimeError \<and>
         get_sld_profile collab self = Inl RuntimeError \<and>
         (\<exists>e. get_reflectivity_profile collab self q_min q_max points scl bg res = Inl e) \<and>
         (q_min \<noteq> 0 \<and> q_max \<noteq> 0 \<and> 0 \<le> points \<longrightarrow>
            get_reflectivity_profile collab self q_min q_max points scl bg res = Inl RuntimeError)"
  using assms
  by (cases st)
    (simp_all add: vary_structure_def get_sld_profile_def get_reflectivity_profile_def
      geomspace_def)

theorem invalid_structure_raises_witness:
  "\<not> is_Structure (Other ''mock'') \<and> \<not> is_Stack (Other ''mock'') \<and>
   vary_structure demo_collab (Other ''mock'') (2 / 10) = Inl RuntimeError \<and>
   get_sld_profile demo_collab (Sample_init (Other ''mock'') Map.empty) = Inl RuntimeError \<and>
   (5 / 1000 :: real) \<noteq> 0 \<and> (4 / 10 :: real) \<noteq> 0 \<and> (0 :: int) \<le> 500 \<and>
   get_reflectivity_profile demo_collab (Sample_init (Other ''mock'') Map.empty)
     (5 / 1000) (4 / 10) 500 1 (1 / 10000000) 2 = Inl RuntimeError"
  using invalid_structure_raises [of "Other ''mock''" "Sample_init (Other ''mock'') Map.empty"
     demo_collab "2 / 10" "5 / 1000" "4 / 10" 500 1 "1 / 10000000" 2]
  by (simp add: Sample_init_def)

text \<open>
  Claim C6 as stated fails for \<^verbatim>\<open>_get_reflectivity_profile\<close>: the Q points are built
  before the structure is looked at, so with \<^verbatim>\<open>q_min = 0\<close> the call raises the
  \<^verbatim>\<open>ValueError\<close> of \<^verbatim>\<open>np.geomspace\<close>, not the error of an invalid structure.
\<close>

theorem invalid_structure_zero_q_counterexample:
  "\<not> is_Structure (structure (Sample_init (Other ''mock'') Map.empty)) \<and>
   \<not> is_Stack (structure (Sample_init (Other ''mock'') Map.empty)) \<and>
   get_reflectivity_profile demo_collab (Sample_init (Other ''mock'') Map.empty)
     0 (4 / 10) 500 1 (1 / 10000000) 2 = Inl ValueError \<and>
   get_reflectivity_profile demo_collab (Sample_init (Other ''mock'') Map.empty)
     0 (4 / 10) 500 1 (1 / 10000000) 2 \<noteq> Inl RuntimeError"
  by (simp add: get_reflectivity_profile_def geomspace_def Sample_init_def)

subsection \<open>\<^verbatim>\<open>Sample.angle_info\<close>\<close>

lemma Sample_angle_info_with_params:
  assumes "params self = Some ps" and "simulate collab (structure self) angle_times = (m, data)"
  shows "Sample_angle_info collab self angle_times contrasts =
           Inr (Fisher_new collab [map (\<lambda>(q, r, dr, counts). q) data] ps
                  [map (\<lambda>(q, r, dr, counts). counts) data] [m])"
  using assms by (simp add: Sample_angle_info_def)

text \<open>
  Claim C8 says that \<^verbatim>\<open>angle_info\<close> of a \<^verbatim>\<open>Sample\<close> built from a valid structure
  returns the Fisher object of the simulated data and the sample's varying parameters. The
  method reads \<^verbatim>\<open>self.params\<close>, which the constructor no longer sets: on every freshly
  constructed \<^verbatim>\<open>Sample\<close> the call raises \<^verbatim>\<open>AttributeError\<close> instead. (With the
  attribute set, the lemma above gives the object the claim describes.)
\<close>

theorem Sample_angle_info_raises:
  "Sample_angle_info collab (Sample_init st settings) angle_times contrasts = Inl AttributeError"
  by (simp add: Sample_angle_info_def Sample_init_def split_beta)

subsection \<open>\<^verbatim>\<open>Sample.get_structures\<close>\<close>

lemma spin_layers_map:
  assumes "length a = i" and "length a' = i"
  shows "spin_layers cs i (a @ cs @ b, a' @ cs @ b') =
           (a @ map up_layer cs @ b, a' @ map down_layer cs @ b')"
  using assms
proof (induction cs arbitrary: a a' i)
  case Nil
  show ?case by simp
next
  case (Cons c cs)
  have l: "length (a @ [up_layer c]) = Suc i" "length (a' @ [down_layer c]) = Suc i"
    using Cons.prems by simp_all
  have u: "(a @ c # cs @ b)[i := x] = (a @ [x]) @ cs @ b" for x
    using Cons.prems(1) by (simp add: list_update_append)
  have d: "(a' @ c # cs @ b')[i := x] = (a' @ [x]) @ cs @ b'" for x
    using Cons.prems(2) by (simp add: list_update_append)
  show ?case
  proof (cases "magnetic c")
    case None
    then have same: "up_layer c = c" "down_layer c = c"
      by (simp_all add: up_layer_def down_layer_def)
    have "spin_layers (c # cs) i (a @ (c # cs) @ b, a' @ (c # cs) @ b') =
          spin_layers cs (Suc i) ((a @ [up_layer c]) @ cs @ b, (a' @ [down_layer c]) @ cs @ b')"
      using None same by simp
    also have "\<dots> = ((a @ [up_layer c]) @ map up_layer cs @ b, (a' @ [down_layer c]) @ map down_layer cs @ b')"
      by (rule Cons.IH [OF l])
    finally show ?thesis by simp
  next
    case (Some m)
    then have ud: "up_layer c = spin_up c m" "down_layer c = spin_down c m"
      by (simp_all add: up_layer_def down_layer_def)
    have "spin_layers (c # cs) i (a @ (c # cs) @ b, a' @ (c # cs) @ b') =
          spin_layers cs (Suc i) ((a @ [up_layer c]) @ cs @ b, (a' @ [down_layer c]) @ cs @ b')"
      using Some ud u [of "spin_up c m"] d [of "spin_down c m"] by simp
    also have "\<dots> = ((a @ [up_layer c]) @ map up_layer cs @ b, (a' @ [down_layer c]) @ map down_layer cs @ b')"
      by (rule Cons.IH [OF l])
    finally show ?thesis by simp
  qed
qed

lemma spin_layers_all:
  "spin_layers comps 0 (comps, comps) = (map up_layer comps, map down_layer comps)"
  using spin_layers_map [of "[]" 0 "[]" comps "[]" "[]"] by simp

text \<open>
  Claim C9, amended. For a \<^verbatim>\<open>Sample\<close> whose structure is a refnx structure,
  \<^verbatim>\<open>get_structures\<close> returns a list of exactly two structures, the spin-up copy and the
  spin-down copy, with every magnetic layer replaced by its \<^verbatim>\<open>spin_up\<close> and
  \<^verbatim>\<open>spin_down\<close> slab; without any magnetic layer both copies hold the layers of the
  wrapped structure. Whenever \<^verbatim>\<open>get_structures\<close> returns, on any \<^verbatim>\<open>Sample\<close>, the list
  has two elements, never only the original structure: the branch
  \<^verbatim>\<open>len(structures) == 0\<close> is dead.
\<close>

theorem get_structures_pair:
  "(\<forall>ss. get_structures self = Inr ss \<longrightarrow> length ss = 2) \<and>
   (\<forall>nm comps. structure self = Structure nm comps \<longrightarrow>
      get_structures self =
        Inr [Structure '''' (map up_layer comps), Structure '''' (map down_layer comps)] \<and>
      ((\<forall>c \<in> set comps. magnetic c = None) \<longrightarrow>
         map up_layer comps = comps \<and> map down_layer comps = comps))"
proof (intro conjI allI impI)
  fix ss assume "get_structures self = Inr ss"
  then show "length ss = 2"
    by (auto simp: get_structures_def Let_def split_beta split: structure.splits)
next
  fix nm comps assume st: "structure self = Structure nm comps"
  show "get_structures self =
        Inr [Structure '''' (map up_layer comps), Structure '''' (map down_layer comps)]"
    by (simp add: get_structures_def st spin_layers_all)
next
  fix comps :: "Slab list" assume "\<forall>c \<in> set comps. magnetic c = None"
  then show "map up_layer comps = comps" by (simp add: up_layer_def map_idI)
next
  fix comps :: "Slab list" assume "\<forall>c \<in> set comps. magnetic c = None"
  then show "map down_layer comps = comps" by (simp add: down_layer_def map_idI)
qed

theorem get_structures_pair_witness:
  "get_structures simple_sample =
     Inr [Structure '''' [\<lparr>name = ''Air'', sld_real = 0, sld_imag = 0, thick = 0, rough = 0, magnetic = None\<rparr>,
           \<lparr>name = ''Layer 1'', sld_real = 4, sld_imag = 0, thick = 100, rough = 2, magnetic = None\<rparr>,
           \<lparr>name = ''Layer 2'', sld_real = 8, sld_imag = 0, thick = 150, rough = 2, magnetic = None\<rparr>,
           \<lparr>name = ''Substrate'', sld_real = 2047 / 1000, sld_imag = 0, thick = 0, rough = 2,
             magnetic = None\<rparr>],
          Structure '''' [\<lparr>name = ''Air'', sld_real = 0, sld_imag = 0, thick = 0, rough = 0, magnetic = None\<rparr>,
           \<lparr>name = ''Layer 1'', sld_real = 4, sld_imag = 0, thick = 100, rough = 2, magnetic = None\<rparr>,
           \<lparr>name = ''Layer 2'', sld_real = 8, sld_imag = 0, thick = 150, rough = 2, magnetic = None\<rparr>,
           \<lparr>name = ''Substrate'', sld_real = 2047 / 1000, sld_imag = 0, thick = 0, rough = 2,
             magnetic = None\<rparr>]] \<and>
   get_structures magnetic_sample =
     Inr [Structure '''' [\<lparr>name = ''Air'', sld_real = 0, sld_imag = 0, thick = 0, rough = 0, magnetic = None\<rparr>,
           \<lparr>name = ''spin_up'', sld_real = 8, sld_imag = 0, thick = 10, rough = 6, magnetic = None\<rparr>,
           \<lparr>name = ''Substrate'', sld_real = 2047 / 1000, sld_imag = 0, thick = 0, rough = 2,
             magnetic = None\<rparr>],
          Structure '''' [\<lparr>name = ''Air'', sld_real = 0, sld_imag = 0, thick = 0, rough = 0, magnetic = None\<rparr>,
           \<lparr>name = ''spin_down'', sld_real = 2, sld_imag = 0, thick = 10, rough = 6, magnetic = None\<rparr>,
           \<lparr>name = ''Substrate'', sld_real = 2047 / 1000, sld_imag = 0, thick = 0, rough = 2,
             magnetic = None\<rparr>]]"
  using get_structures_pair [of simple_sample] get_structures_pair [of magnetic_sample]
  by (simp add: simple_sample_def magnetic_sample_def Sample_init_def up_layer_def down_layer_def
      MagneticLayer_init_def spin_up_def spin_down_def SLD_n_def SLD_m_def)

text \<open>
  Claim C9 as stated fails for a \<^verbatim>\<open>Sample\<close> that wraps a Refl1D \<^verbatim>\<open>Stack\<close>: a
  \<^verbatim>\<open>Stack\<close> has no method \<^verbatim>\<open>copy\<close>, so \<^verbatim>\<open>self.structure.copy()\<close> raises
  \<^verbatim>\<open>AttributeError\<close> and no list is returned.
\<close>

theorem get_structures_refl1d_counterexample:
  "is_Stack (structure refl1d_sample) \<and> get_structures refl1d_sample = Inl AttributeError"
  by (simp add: refl1d_sample_def Sample_init_def get_structures_def)

subsection \<open>\<^verbatim>\<open>to_refl1d\<close> followed by \<^verbatim>\<open>to_refnx\<close>\<close>

lemma to_refl1d_loop_stack:
  "to_refl1d_loop cs (Stack nm ls) = Stack (if cs = [] then nm else ''Stack'') (rev (map as_refl1d cs) @ ls)"
  by (induction cs arbitrary: nm ls) (simp_all add: as_refl1d_def Let_def)

lemma to_refl1d_loop_material:
  "cs \<noteq> [] \<Longrightarrow>
   to_refl1d_loop cs (Material ''Air'' 0 0) = Stack ''Stack'' (rev (map as_refl1d cs) @ [air_layer])"
  by (cases cs) (simp_all add: to_refl1d_loop_stack Let_def as_refl1d_def air_layer_def)

lemma to_refnx_loop_structure:
  "to_refnx_loop ls (Structure nm cs) = Structure nm (cs @ map as_refnx ls)"
  by (induction ls arbitrary: cs) (simp_all add: as_refnx_def Let_def)

lemma to_refnx_loop_scatterer:
  "ls \<noteq> [] \<Longrightarrow>
   to_refnx_loop ls (Scatterer ''Air'' 0 0) = Structure '''' (air_slab # map as_refnx ls)"
  by (cases ls) (simp_all add: to_refnx_loop_structure Let_def as_refnx_def air_slab_def)

lemma round_trip_structure:
  assumes "structure self = Structure nm comps" and "2 \<le> length comps"
  shows "\<exists>s1. to_refl1d self = Inr s1 \<and>
           structure s1 = Stack nm (rev (map as_refl1d (tl comps)) @ [air_layer]) \<and>
           to_refnx s1 = Inr (s1\<lparr>structure := Structure nm (air_slab # map (as_refnx \<circ> as_refl1d) (tl comps))\<rparr>)"
proof -
  have ne: "tl comps \<noteq> []" using assms(2) by (cases comps; cases "tl comps") auto
  let ?s1 = "self\<lparr>structure := Stack nm (rev (map as_refl1d (tl comps)) @ [air_layer])\<rparr>"
  have 1: "to_refl1d self = Inr ?s1"
    by (simp add: to_refl1d_def assms(1) to_refl1d_loop_material [OF ne])
  have ne2: "map as_refl1d (tl comps) \<noteq> []" using ne by simp
  have 2: "to_refnx ?s1 = Inr (?s1\<lparr>structure := Structure nm (air_slab # map (as_refnx \<circ> as_refl1d) (tl comps))\<rparr>)"
    by (simp add: to_refnx_def to_refnx_loop_scatterer [OF ne2])
  show ?thesis using 1 2 by simp
qed

text \<open>
  Claim C10, amended. For a \<^verbatim>\<open>Sample\<close> whose structure is a refnx structure of at least
  two slabs, \<^verbatim>\<open>to_refl1d\<close> followed by \<^verbatim>\<open>to_refnx\<close> succeeds and yields a refnx
  structure of the same name with the same number of layers in the same order, in which
  every layer after the first has the name, real SLD, imaginary SLD, thickness and
  roughness of the layer at the same position of the original structure.
\<close>

theorem refnx_round_trip:
  assumes "structure self = Structure nm comps" and "2 \<le> length comps"
  shows "\<exists>s1 s2 comps'.
           to_refl1d self = Inr s1 \<and> to_refnx s1 = Inr s2 \<and>
           structure s2 = Structure nm comps' \<and>
           length comps' = length comps \<and>
           (\<forall>i. 0 < i \<and> i < length comps \<longrightarrow>
              name (comps' ! i) = name (comps ! i) \<and>
              sld_real (comps' ! i) = sld_real (comps ! i) \<and>
              sld_imag (comps' ! i) = sld_imag (comps ! i) \<and>
              thick (comps' ! i) = thick (comps ! i) \<and>
              rough (comps' ! i) = rough (comps ! i))"
proof -
  let ?cs = "air_slab # map (as_refnx \<circ> as_refl1d) (tl comps)"
  from round_trip_structure [OF assms] obtain s1 where
    1: "to_refl1d self = Inr s1" and
    2: "to_refnx s1 = Inr (s1\<lparr>structure := Structure nm ?cs\<rparr>)"
    by blast
  have len: "length ?cs = length comps" using assms(2) by simp
  have each: "name (?cs ! i) = name (comps ! i) \<and>
              sld_real (?cs ! i) = sld_real (comps ! i) \<and>
              sld_imag (?cs ! i) = sld_imag (comps ! i) \<and>
              thick (?cs ! i) = thick (comps ! i) \<and>
              rough (?cs ! i) = rough (comps ! i)" if i: "0 < i \<and> i < length comps" for i
  proof -
    from i obtain j where j: "i = Suc j" by (cases i) auto
    with i have jl: "j < length (tl comps)" by simp
    have "?cs ! i = as_refnx (as_refl1d (tl comps ! j))" using j jl by simp
    moreover have "tl comps ! j = comps ! i" using j jl by (simp add: nth_tl)
    ultimately show ?thesis by (simp add: as_refnx_def as_refl1d_def)
  qed
  have "structure (s1\<lparr>structure := Structure nm ?cs\<rparr>) = Structure nm ?cs" by simp
  with 1 2 len each show ?thesis by blast
qed

theorem refnx_round_trip_witness:
  "2 \<le> length [\<lparr>name = ''Air'', sld_real = 0, sld_imag = 0, thick = 0, rough = 0, magnetic = None\<rparr>,
           \<lparr>name = ''Layer 1'', sld_real = 4, sld_imag = 0, thick = 100, rough = 2, magnetic = None\<rparr>,
           \<lparr>name = ''Layer 2'', sld_real = 8, sld_imag = 0, thick = 150, rough = 2, magnetic = None\<rparr>,
           \<lparr>name = ''Substrate'', sld_real = 2047 / 1000, sld_imag = 0, thick = 0, rough = 2,
             magnetic = None\<rparr>] \<and>
   (\<exists>s1 s2. to_refl1d simple_sample = Inr s1 \<and> to_refnx s1 = Inr s2 \<and>
      structure s2 = structure simple_sample)"
proof -
  let ?comps = "[\<lparr>name = ''Air'', sld_real = 0, sld_imag = 0, thick = 0, rough = 0, magnetic = None\<rparr>,
           \<lparr>name = ''Layer 1'', sld_real = 4, sld_imag = 0, thick = 100, rough = 2, magnetic = None\<rparr>,
           \<lparr>name = ''Layer 2'', sld_real = 8, sld_imag = 0, thick = 150, rough = 2, magnetic = None\<rparr>,
           \<lparr>name = ''Substrate'', sld_real = 2047 / 1000, sld_imag = 0, thick = 0, rough = 2,
             magnetic = None\<rparr>]"
  have st: "structure simple_sample = Structure ''simple_sample'' ?comps"
    by (simp add: simple_sample_def Sample_init_def)
  have l: "2 \<le> length ?comps" by simp
  from refnx_round_trip [OF st l] obtain s1 s2 comps' where
    1: "to_refl1d simple_sample = Inr s1" and 2: "to_refnx s1 = Inr s2" and
    3: "structure s2 = Structure ''simple_sample'' comps'"
    by blast
  have "to_refl1d simple_sample = Inr (simple_sample\<lparr>structure :=
      Stack ''simple_sample''
        [\<lparr>layer_name = ''Substrate'', rho = 2047 / 1000, irho = 0, thickness = 0, interface = 2\<rparr>,
         \<lparr>layer_name = ''Layer 2'', rho = 8, irho = 0, thickness = 150, interface = 2\<rparr>,
         \<lparr>layer_name = ''Layer 1'', rho = 4, irho = 0, thickness = 100, interface = 2\<rparr>,
         \<lparr>layer_name = ''Air'', rho = 0, irho = 0, thickness = 0, interface = 0\<rparr>]\<rparr>)"
    by (simp add: to_refl1d_def st Let_def)
  with 1 have s1: "s1 = simple_sample\<lparr>structure :=
      Stack ''simple_sample''
        [\<lparr>layer_name = ''Substrate'', rho = 2047 / 1000, irho = 0, thickness = 0, interface = 2\<rparr>,
         \<lparr>layer_name = ''Layer 2'', rho = 8, irho = 0, thickness = 150, interface = 2\<rparr>,
         \<lparr>layer_name = ''Layer 1'', rho = 4, irho = 0, thickness = 100, interface = 2\<rparr>,
         \<lparr>layer_name = ''Air'', rho = 0, irho = 0, thickness = 0, interface = 0\<rparr>]\<rparr>"
    by simp
  have "to_refnx s1 = Inr (s1\<lparr>structure := Structure ''simple_sample'' ?comps\<rparr>)"
    unfolding s1 by (simp add: to_refnx_def Let_def)
  with 2 have "structure s2 = Structure ''simple_sample'' ?comps" by auto
  with 1 2 st l show ?thesis by auto
qed

text \<open>
  Claim C10 as stated fails for a refnx structure of a single layer: the loop of
  \<^verbatim>\<open>to_refl1d\<close> joins nothing, the sample is left with the bare
  \<^verbatim>\<open>refl1d.material.SLD\<close> instead of a \<^verbatim>\<open>Stack\<close>, and the assertion of
  \<^verbatim>\<open>to_refnx\<close> fails.
\<close>

theorem refnx_round_trip_single_layer_counterexample:
  "is_Structure (structure air_only_sample) \<and>
   to_refl1d air_only_sample = Inr (air_only_sample\<lparr>structure := Material ''air_only'' 0 0\<rparr>) \<and>
   to_refnx (air_only_sample\<lparr>structure := Material ''air_only'' 0 0\<rparr>) = Inl AssertionError"
  by (simp add: air_only_sample_def Sample_init_def to_refl1d_def to_refnx_def)

end
